theory Spec2Isabelle
  imports Main
begin

section \<open>Package strings\<close>

text \<open>
  Go strings are byte sequences; \<open>string\<close> is a list of bytes as well. The four
  functions below are the ones the client calls. Every cutset and every search string the
  client passes is ASCII, so bytes and code points coincide.
\<close>

definition HasPrefix :: "string \<Rightarrow> string \<Rightarrow> bool" where
  "HasPrefix s prefix = (length prefix \<le> length s \<and> take (length prefix) s = prefix)"

definition HasSuffix :: "string \<Rightarrow> string \<Rightarrow> bool" where
  "HasSuffix s suffix =
     (length suffix \<le> length s \<and> drop (length s - length suffix) s = suffix)"

definition TrimRight :: "string \<Rightarrow> string \<Rightarrow> string" where
  "TrimRight s cutset = rev (dropWhile (\<lambda>c. c \<in> set cutset) (rev s))"

text \<open>
  \<open>strings.ReplaceAll\<close>: non-overlapping occurrences of \<open>old\<close>, left to right. With an
  empty \<open>old\<close> Go inserts \<open>new\<close> before every code point and at the end; the client only
  calls it with the one-byte string holding a line feed.
\<close>

fun ReplaceAll :: "string \<Rightarrow> string \<Rightarrow> string \<Rightarrow> string" where
  "ReplaceAll [] old new = (if old = [] then new else [])"
| "ReplaceAll (c # cs) old new =
     (if old = [] then new @ c # ReplaceAll cs old new
      else if HasPrefix (c # cs) old
        then new @ ReplaceAll (drop (length old) (c # cs)) old new
        else c # ReplaceAll cs old new)"

section \<open>Data model\<close>

subsection \<open>Errors and outcomes\<close>

text \<open>
  An \<open>error\<close> is a Go error value produced by a library call (URL parsing, JSON decoding,
  the HTTP exchange), identified by its message. A Go function either returns or panics.
\<close>

datatype error = Err string

datatype 'a go = Panic | Return 'a

subsection \<open>The envelopes\<close>

record FaultDetail =
  ErrorCode :: string

record Fault =
  FaultString :: string
  Detail :: "FaultDetail option"

record FaultResponse =
  Status :: string
  StatusCode :: int
  Fault :: "Fault option"

record Status =
  Message :: string

record PagingInfo =
  Skip :: int
  Limit :: int

record FilterInfo =
  Query :: "(string \<rightharpoonup> string) option"

type_synonym Order = "string list"
type_synonym Sorting = "Order list"

record RequestInfo =
  Paging :: "PagingInfo option"
  Filter :: "FilterInfo option"
  Sort :: "Sorting option"

text \<open>
  \<open>APIResponse\<close>: the elements of \<open>Data\<close> are Go \<open>interface{}\<close> values that the program
  never inspects; their type is the parameter \<open>'j\<close>. A nil slice is \<open>None\<close>. The fields
  \<open>Status\<close> and \<open>Request\<close> carry the prefix \<open>api_\<close> here, since \<open>FaultResponse\<close> has a
  field \<open>Status\<close> too.
\<close>

record 'j APIResponse =
  api_Status :: "Status option"
  api_Request :: "RequestInfo option"
  Data :: "'j list option"

subsection \<open>HTTP: contexts, headers, requests, responses\<close>

text \<open>
  A \<open>RoundTripper\<close> of this program is \<open>http.DefaultTransport\<close> or a
  \<open>BearerAuthTransport\<close> around another one (its field \<open>rt\<close> is not exported, so no other
  package can build one).
\<close>

datatype RoundTripper = DefaultTransport | BearerAuthTransport (rt: RoundTripper)

record http_Client =
  Transport :: RoundTripper

text \<open>
  Contexts: the background context, a context supplied by the caller (opaque, numbered), and
  \<open>context.WithValue(parent, oauth2.HTTPClient, client)\<close>, the only derived context the
  program builds.
\<close>

datatype Context =
    Background
  | CallerContext nat
  | WithValue_HTTPClient Context http_Client

text \<open>A parsed URL, represented by what its method \<open>String()\<close> prints.\<close>

datatype URL = URL (URL_String: string)

text \<open>
  \<open>http.Header\<close> is a Go map from canonical header names to lists of values. Maps are
  reference values: a request holds the address of its header map (or nil), and the map
  itself lives in the store. \<open>fresh\<close> is the next unused address; every address below it
  is allocated.
\<close>

type_synonym Header = "string \<rightharpoonup> string list"

record store =
  maps :: "nat \<Rightarrow> Header"
  fresh :: nat

record Request =
  req_Method :: string
  req_URL :: URL
  req_Header :: "nat option"
  req_Body :: "string option"
  req_ctx :: Context

text \<open>
  The body of a response is a stream (\<open>io.ReadCloser\<close>): the bytes still to be read, and
  how the stream ends after them, with EOF (\<open>None\<close>) or with a read error. Reading moves
  bytes out of \<open>pending\<close>; a stream that has failed keeps failing.
\<close>

record ReadCloser =
  pending :: string
  failure :: "error option"

text \<open>
  \<open>resp_Request\<close> is the field \<open>Request\<close> of \<open>http.Response\<close>: the request that was sent to
  obtain the response.
\<close>

record Response =
  resp_Status :: string
  resp_StatusCode :: int
  resp_Body :: ReadCloser
  resp_Request :: "Request option"

text \<open>\<open>make(http.Header)\<close>: a new empty map at a fresh address.\<close>

definition make_Header :: "store \<Rightarrow> store \<times> nat" where
  "make_Header st =
     (st\<lparr>maps := (maps st)(fresh st := Map.empty), fresh := Suc (fresh st)\<rparr>, fresh st)"

text \<open>
  \<open>Header.Get\<close> and \<open>Header.Set\<close>. Both canonicalise the key first; the keys the program
  passes (\<open>Authorization\<close>, \<open>User-Agent\<close>, \<open>Accept\<close>, \<open>Content-Type\<close>) are in canonical
  form already. Reading a nil map finds nothing; writing to a nil map panics.
\<close>

definition Header_Get :: "store \<Rightarrow> nat option \<Rightarrow> string \<Rightarrow> string" where
  "Header_Get st h key =
     (case h of
        None \<Rightarrow> ''''
      | Some a \<Rightarrow>
          (case maps st a key of
             None \<Rightarrow> ''''
           | Some [] \<Rightarrow> ''''
           | Some (v # vs) \<Rightarrow> v))"

definition Header_Set :: "store \<Rightarrow> nat option \<Rightarrow> string \<Rightarrow> string \<Rightarrow> store go" where
  "Header_Set st h key v =
     (case h of
        None \<Rightarrow> Panic
      | Some a \<Rightarrow> Return (st\<lparr>maps := (maps st)(a := (maps st a)(key \<mapsto> [v]))\<rparr>))"

text \<open>\<open>Request.WithContext\<close>: a shallow copy of the request with the context replaced.\<close>

definition Request_WithContext :: "Request \<Rightarrow> Context \<Rightarrow> Request" where
  "Request_WithContext r x = r\<lparr>req_ctx := x\<rparr>"

section \<open>The library calls the program makes\<close>

record Config =
  ClientID :: string
  ClientSecret :: string
  TokenURL :: string
  Scopes :: "string list"

text \<open>
  An \<open>HTTPRequestDoer\<close> is anything with a method \<open>Do\<close>: it receives the request, reads and
  possibly changes the store, and returns a response pointer and an error.
\<close>

type_synonym HTTPRequestDoer = "store \<Rightarrow> Request \<Rightarrow> store \<times> Response option \<times> error option"

text \<open>
  The code of the packages \<open>net/url\<close>, \<open>encoding/json\<close>, \<open>net/http\<close>, \<open>net/http/httputil\<close>
  and \<open>golang.org/x/oauth2\<close> is not part of this repository. What the program calls of
  them is a parameter of the model, and every theorem holds for all values of it:
  \<^item> \<open>url_Parse\<close>: \<open>url.Parse\<close>;
  \<^item> \<open>removeEmptyPort\<close>: the normalisation \<open>http.NewRequest\<close> applies to the host of
    the parsed URL;
  \<^item> \<open>json_Decode_FaultResponse\<close>, \<open>json_Decode_APIResponse\<close>:
    \<open>json.NewDecoder(body).Decode(&v)\<close> for a zero \<open>v\<close> of the type, reading the stream
    \<open>body\<close> and giving the error or the decoded \<open>v\<close>;
  \<^item> \<open>DumpRequestOut\<close>, \<open>DumpResponse\<close>: the dump routines of \<open>httputil\<close>. They are
    given a pointer to the request or the response and read its body through it; their
    documentation leaves the state of the argument undefined when they return an error.
    So each returns, with the dump or the error, the request or the response as it leaves
    it;
  \<^item> \<open>DefaultTransport_RoundTrip\<close>: the method \<open>RoundTrip\<close> of \<open>http.DefaultTransport\<close>;
  \<^item> \<open>Config_Client\<close>: the method \<open>Client\<close> of \<open>clientcredentials.Config\<close>, which
    returns the authenticated HTTP client.
\<close>

record 'j stdlib =
  url_Parse :: "string \<Rightarrow> error + URL"
  removeEmptyPort :: "URL \<Rightarrow> URL"
  json_Decode_FaultResponse :: "ReadCloser \<Rightarrow> error + FaultResponse"
  json_Decode_APIResponse :: "ReadCloser \<Rightarrow> error + 'j APIResponse"
  DumpRequestOut :: "store \<Rightarrow> Request \<Rightarrow> bool \<Rightarrow> Request \<times> (error + string)"
  DumpResponse :: "Response \<Rightarrow> bool \<Rightarrow> Response \<times> (error + string)"
  DefaultTransport_RoundTrip :: HTTPRequestDoer
  Config_Client :: "Config \<Rightarrow> Context \<Rightarrow> HTTPRequestDoer"

text \<open>
  \<open>http.NewRequest\<close> for a valid method (the program passes \<open>GET\<close> only): the URL is
  parsed, and the new request has an empty header map of its own and the background
  context.
\<close>

definition http_NewRequest ::
  "'j stdlib \<Rightarrow> store \<Rightarrow> string \<Rightarrow> string \<Rightarrow> string option \<Rightarrow> store \<times> (error + Request)" where
  "http_NewRequest lib st method url body =
     (case url_Parse lib url of
        Inl err \<Rightarrow> (st, Inl err)
      | Inr u \<Rightarrow>
          (let (st1, h) = make_Header st
           in (st1, Inr \<lparr>req_Method = method, req_URL = removeEmptyPort lib u,
                          req_Header = Some h, req_Body = body, req_ctx = Background\<rparr>)))"

section \<open>The transport shim\<close>

text \<open>
  \<open>cloneRequest\<close>: the struct is copied, then the copy gets a new header map, filled entry
  by entry with a copy of each value list (\<open>append([]string(nil), s...)\<close>). The loop ranges
  over a Go map, whose entries have distinct keys and no order; its effect on the new map
  is to add a copy of every entry of the old one.
\<close>

definition cloneRequest :: "store \<Rightarrow> Request \<Rightarrow> store \<times> Request" where
  "cloneRequest st r =
     (let r2 = r;
          (st1, h) = make_Header st;
          r2 = r2\<lparr>req_Header := Some h\<rparr>;
          src = (case req_Header r of None \<Rightarrow> Map.empty | Some a \<Rightarrow> maps st1 a);
          st2 = st1\<lparr>maps := (maps st1)
                  (h := maps st1 h ++ (\<lambda>k. map_option (\<lambda>s. [] @ s) (src k)))\<rparr>
      in (st2, r2))"

fun RoundTrip ::
  "'j stdlib \<Rightarrow> RoundTripper \<Rightarrow> store \<Rightarrow> Request \<Rightarrow> (store \<times> Response option \<times> error option) go" where
  "RoundTrip lib DefaultTransport st req = Return (DefaultTransport_RoundTrip lib st req)"
| "RoundTrip lib (BearerAuthTransport t) st req =
     (let auth = Header_Get st (req_Header req) ''Authorization'';
          auth = (if HasPrefix auth ''BearerToken '' then ''Bearer '' @ drop 12 auth else auth);
          (st1, req2) = cloneRequest st req
      in case Header_Set st1 (req_Header req2) ''Authorization'' auth of
           Panic \<Rightarrow> Panic
         | Return st2 \<Rightarrow> RoundTrip lib t st2 req2)"

section \<open>The client\<close>

definition defaultServer :: string where
  "defaultServer = ''https://infosight.hpe.com/apis/''"

definition defaultVersion :: string where
  "defaultVersion = ''v1''"

text \<open>
  The struct \<open>Wellness\<close> embeds a pointer to its client, and the client's field \<open>Wellness\<close>
  points back to it. The model keeps the accessor's own field in the record and passes
  the embedded client to the accessor's methods as an argument.
\<close>

record Wellness =
  Version :: string

record Client =
  Server :: string
  Wellness :: "Wellness option"
  innerClient :: "HTTPRequestDoer option"
  oauthConfig :: "Config option"
  ctx :: "Context option"
  userAgent :: string
  token :: "string option"
  user :: string
  password :: string
  insecure :: bool
  trace :: bool

text \<open>
  A \<open>ClientOption\<close> is a function that may change the client it is given and returns an
  error or nil: here, the changed client and the error.
\<close>

type_synonym ClientOption = "Client \<Rightarrow> Client \<times> error option"

definition WithTrace :: "bool \<Rightarrow> ClientOption" where
  "WithTrace t = (\<lambda>c. (c\<lparr>trace := t\<rparr>, None))"

definition WithUserAgent :: "string \<Rightarrow> ClientOption" where
  "WithUserAgent ua = (\<lambda>c. (c\<lparr>userAgent := ua\<rparr>, None))"

definition WithContext :: "Context option \<Rightarrow> ClientOption" where
  "WithContext x = (\<lambda>c. (c\<lparr>ctx := x\<rparr>, None))"

definition WithLogin :: "string \<Rightarrow> string \<Rightarrow> ClientOption" where
  "WithLogin u p = (\<lambda>c. (c\<lparr>user := u, password := p\<rparr>, None))"

definition WithBaseURL :: "'j stdlib \<Rightarrow> string \<Rightarrow> ClientOption" where
  "WithBaseURL lib baseURL =
     (\<lambda>c. case url_Parse lib baseURL of
             Inl err \<Rightarrow> (c, Some err)
           | Inr newBaseURL \<Rightarrow> (c\<lparr>Server := URL_String newBaseURL\<rparr>, None))"

definition NewWellness :: "Client \<Rightarrow> Wellness" where
  "NewWellness client = \<lparr>Version = defaultVersion\<rparr>"

text \<open>
  The zero value of the struct: a composite literal \<open>&Client{...}\<close> leaves every field it
  does not name at its zero value.
\<close>

definition zero_Client :: Client where
  "zero_Client =
     \<lparr>Server = '''', Wellness = None, innerClient = None, oauthConfig = None, ctx = None,
      userAgent = '''', token = None, user = '''', password = '''', insecure = False,
      trace = False\<rparr>"

text \<open>The loop of \<open>NewClient\<close> over its options: the first error ends it.\<close>

fun apply_options :: "ClientOption list \<Rightarrow> Client \<Rightarrow> error + Client" where
  "apply_options [] c = Inr c"
| "apply_options (opt # opts) c =
     (case opt c of
        (c1, Some err) \<Rightarrow> Inl err
      | (c1, None) \<Rightarrow> apply_options opts c1)"

definition NewClient :: "'j stdlib \<Rightarrow> string \<Rightarrow> ClientOption list \<Rightarrow> error + Client" where
  "NewClient lib baseURL opts =
     (let baseURL = TrimRight baseURL ''/'';
          c = zero_Client\<lparr>Server := baseURL, userAgent := ''go-infosight''\<rparr>
      in case apply_options opts c of
           Inl err \<Rightarrow> Inl err
         | Inr c \<Rightarrow>
             (let c = (if ctx c = None then c\<lparr>ctx := Some Background\<rparr> else c);
                  transport = BearerAuthTransport DefaultTransport;
                  parent = (case ctx c of Some x \<Rightarrow> x | None \<Rightarrow> Background);
                  ctx1 = WithValue_HTTPClient parent \<lparr>Transport = transport\<rparr>;
                  c = c\<lparr>ctx := Some ctx1\<rparr>;
                  c = (if Server c = '''' then c\<lparr>Server := defaultServer\<rparr> else c);
                  c = (if \<not> HasSuffix (Server c) ''/'' then c\<lparr>Server := Server c @ ''/''\<rparr> else c);
                  cfg = \<lparr>ClientID = user c, ClientSecret = password c,
                         TokenURL = Server c @ ''oauth/token'', Scopes = ['''']\<rparr>;
                  c = c\<lparr>oauthConfig := Some cfg\<rparr>;
                  c = c\<lparr>innerClient := Some (Config_Client lib cfg ctx1)\<rparr>;
                  c = c\<lparr>Wellness := Some (NewWellness c)\<rparr>
              in Inr c))"

text \<open>\<open>getenv\<close> is the process environment (\<open>os.Getenv\<close>).\<close>

definition NewClientFromEnvironment ::
  "'j stdlib \<Rightarrow> (string \<Rightarrow> string) \<Rightarrow> ClientOption list \<Rightarrow> error + Client" where
  "NewClientFromEnvironment lib getenv opts =
     (let baseURL = getenv ''INFOSIGHT_URL'';
          u = getenv ''INFOSIGHT_CLIENT_KEY'';
          p = getenv ''INFOSIGHT_CLIENT_SECRET'';
          opts = opts @ [WithLogin u p]
      in NewClient lib baseURL opts)"

text \<open>
  The log is the list of the lines written so far. \<open>Tracef\<close> is given the message already
  formatted.
\<close>

definition Tracef :: "string list \<Rightarrow> string \<Rightarrow> string list" where
  "Tracef lg msg = lg @ [''[TRACE] '' @ msg]"

definition LF :: string where
  "LF = [CHR 0x0A]"

definition CRLF :: string where
  "CRLF = [CHR 0x0D, CHR 0x0A]"

definition indent :: string where
  "indent = replicate 28 (CHR '' '')"

text \<open>
  \<open>do\<close>. \<open>req.WithContext(c.ctx)\<close> panics on a nil context and otherwise returns a copy of
  the request, which the code does not use. The three headers are written into the header
  map of the request itself. The request and the response are pointers: what the caller
  holds after the call is the request as \<open>DumpRequestOut\<close> left it and the response as
  \<open>DumpResponse\<close> left it, when tracing is on. The result of the model is the store, the
  log, the request as it is after the call, and the two values the Go function returns.
\<close>

definition do ::
  "'j stdlib \<Rightarrow> Client \<Rightarrow> store \<Rightarrow> string list \<Rightarrow> Request
     \<Rightarrow> (store \<times> string list \<times> Request \<times> Response option \<times> error option) go" where
  "do lib c st lg req =
     (case ctx c of
        None \<Rightarrow> Panic
      | Some x \<Rightarrow>
          (let unused = Request_WithContext req x in
           case Header_Set st (req_Header req) ''User-Agent'' (userAgent c) of
             Panic \<Rightarrow> Panic
           | Return st1 \<Rightarrow>
           case Header_Set st1 (req_Header req) ''Accept'' ''application/json'' of
             Panic \<Rightarrow> Panic
           | Return st2 \<Rightarrow>
           case Header_Set st2 (req_Header req) ''Content-Type'' ''application/json'' of
             Panic \<Rightarrow> Panic
           | Return st3 \<Rightarrow>
           case innerClient c of
             None \<Rightarrow> Panic
           | Some doer \<Rightarrow>
               (let (st4, r, e) = doer st3 req in
                if trace c then
                  (let reqStr = '''';
                       (req1, dumped) = DumpRequestOut lib st4 req True;
                       (dump, err) = (case dumped of
                                        Inl e1 \<Rightarrow> ('''', Some e1)
                                      | Inr d \<Rightarrow> (d, None));
                       reqStr = (if err = None
                                 then ReplaceAll (TrimRight dump CRLF) LF (LF @ indent)
                                 else reqStr);
                       (r1, dump, err) =
                          (case r of
                             None \<Rightarrow> (None, '''', None)
                           | Some r0 \<Rightarrow>
                               (case DumpResponse lib r0 True of
                                  (r2, Inl e1) \<Rightarrow> (Some r2, '''', Some e1)
                                | (r2, Inr d) \<Rightarrow> (Some r2, d, None)));
                       lg1 = (if err = None
                              then Tracef lg (reqStr @ LF @ LF @ indent
                                     @ ReplaceAll (TrimRight dump CRLF) LF (LF @ indent) @ LF)
                              else lg)
                   in Return (st4, lg1, req1, r1, e))
                else Return (st4, lg, req, r, e))))"

section \<open>The resource accessor\<close>

text \<open>
  What \<open>GetObjectSet\<close> returns in its first result, of type \<open>interface{}\<close>: an
  \<open>APIResponse\<close>, or a pointer to a \<open>FaultResponse\<close> (possibly a nil pointer).
\<close>

datatype 'j iface = APIResponse_value "'j APIResponse" | FaultResponse_ptr "FaultResponse option"

definition NewFaultResponse :: "'j stdlib \<Rightarrow> Response \<Rightarrow> FaultResponse option \<times> error option" where
  "NewFaultResponse lib r =
     (case json_Decode_FaultResponse lib (resp_Body r) of
        Inl err \<Rightarrow> (None, Some err)
      | Inr faultResponse \<Rightarrow>
          (Some (faultResponse\<lparr>Status := resp_Status r, StatusCode := resp_StatusCode r\<rparr>),
           None))"

text \<open>The method \<open>Error\<close> of \<open>*FaultResponse\<close>; on a nil receiver it panics.\<close>

definition Error :: "FaultResponse option \<Rightarrow> string go" where
  "Error e =
     (case e of
        None \<Rightarrow> Panic
      | Some fr \<Rightarrow> (case Fault fr of Some f \<Rightarrow> Return (FaultString f) | None \<Rightarrow> Return (Status fr)))"

definition GetObjectSet ::
  "'j stdlib \<Rightarrow> Client \<Rightarrow> Wellness \<Rightarrow> store \<Rightarrow> string list \<Rightarrow> string
     \<Rightarrow> (store \<times> string list \<times> 'j iface option \<times> error option) go" where
  "GetObjectSet lib c w st lg objectSet =
     (let queryURL = Server c @ ''wellness/'' @ Version w @ ''/'' @ objectSet
                       @ ''?domain=urn:nimble''
      in case http_NewRequest lib st ''GET'' queryURL None of
           (st1, Inl err) \<Rightarrow> Return (st1, lg, None, Some err)
         | (st1, Inr req) \<Rightarrow>
             (case do lib c st1 lg req of
                Panic \<Rightarrow> Panic
              | Return (st2, lg2, req2, r, err) \<Rightarrow>
                  (case err of
                     Some e \<Rightarrow> Return (st2, lg2, None, Some e)
                   | None \<Rightarrow>
                       (case r of
                          None \<Rightarrow> Panic
                        | Some r1 \<Rightarrow>
                            if resp_StatusCode r1 > 399
                            then (case NewFaultResponse lib r1 of
                                    (p, e) \<Rightarrow> Return (st2, lg2, Some (FaultResponse_ptr p), e))
                            else (case json_Decode_APIResponse lib (resp_Body r1) of
                                    Inl e \<Rightarrow> Return (st2, lg2, None, Some e)
                                  | Inr apiResponse \<Rightarrow>
                                      Return (st2, lg2, Some (APIResponse_value apiResponse),
                                              None))))))"

definition GetIssues ::
  "'j stdlib \<Rightarrow> Client \<Rightarrow> Wellness \<Rightarrow> store \<Rightarrow> string list
     \<Rightarrow> (store \<times> string list \<times> 'j iface option \<times> error option) go" where
  "GetIssues lib c w st lg = GetObjectSet lib c w st lg ''issues''"

section \<open>Specification predicates and example values\<close>

text \<open>
  \<open>one_trailing_slash\<close> says in the words of the specification what a normalised server
  URL looks like: it ends with a slash and not with two.
\<close>

definition one_trailing_slash :: "string \<Rightarrow> bool" where
  "one_trailing_slash s = (HasSuffix s ''/'' \<and> \<not> HasSuffix s ''//'')"

text \<open>
  The values below stand in for the library and the network in the examples, and agree
  with the Go library on the inputs the examples use.
  \<^item> The URL parser rejects a string that holds the control byte DEL; the other URLs of
    the examples print as they were written.
  \<^item> The decoders know the bodies of the examples; each element of \<open>data\<close> is kept as its
    JSON text. A decoder succeeds as soon as the bytes read hold a complete JSON value,
    also when the stream fails after them; on a stream with no bytes it returns the
    stream's error, or EOF.
  \<^item> \<open>DumpRequestOut\<close> succeeds and leaves a request without a body with the empty body
    \<open>http.NoBody\<close>. \<open>DumpResponse\<close> first reads the whole body: when the stream ends with
    EOF it puts the bytes back and succeeds; when the stream fails it returns the read
    error and leaves the body as it is then, with nothing more to read.
  \<^item> The transport answers every request with a fixed response, in which it records the
    request it was given.

  \<open>returned\<close> reads the two values that \<open>GetObjectSet\<close> returns, \<open>answered\<close> the two that
  \<open>do\<close> returns, \<open>sent\<close> the request the transport was given, and \<open>forwarded\<close> the request
  and the header map that the network was given by the shim.
\<close>

definition example_url_Parse :: "string \<Rightarrow> error + URL" where
  "example_url_Parse s =
     (if CHR 0x7F \<in> set s then Inl (Err ''net/url: invalid control character in URL'')
      else Inr (URL s))"

definition fault_json :: string where
  \<open>fault_json = ''{"fault":{"faultstring":"forbidden"}}''\<close>

definition issues_json :: string where
  \<open>issues_json = ''{"data":[{"id":1}]}''\<close>

definition issue_1 :: string where
  \<open>issue_1 = ''{"id":1}''\<close>

definition example_Decode_FaultResponse :: "ReadCloser \<Rightarrow> error + FaultResponse" where
  "example_Decode_FaultResponse body =
     (if pending body = fault_json
      then Inr \<lparr>Status = '''', StatusCode = 0,
                Fault = Some \<lparr>FaultString = ''forbidden'', Detail = None\<rparr>\<rparr>
      else if pending body = ''{}''
      then Inr \<lparr>Status = '''', StatusCode = 0, Fault = None\<rparr>
      else if pending body = ''''
      then Inl (case failure body of Some e \<Rightarrow> e | None \<Rightarrow> Err ''EOF'')
      else Inl (Err ''invalid character''))"

definition example_Decode_APIResponse :: "ReadCloser \<Rightarrow> error + string APIResponse" where
  "example_Decode_APIResponse body =
     (if pending body = issues_json
      then Inr \<lparr>api_Status = None, api_Request = None, Data = Some [issue_1]\<rparr>
      else if pending body = ''{}''
      then Inr \<lparr>api_Status = None, api_Request = None, Data = None\<rparr>
      else if pending body = ''''
      then Inl (case failure body of Some e \<Rightarrow> e | None \<Rightarrow> Err ''EOF'')
      else Inl (Err ''invalid character''))"

definition example_DumpRequestOut :: "store \<Rightarrow> Request \<Rightarrow> bool \<Rightarrow> Request \<times> (error + string)" where
  "example_DumpRequestOut st req body =
     (req\<lparr>req_Body := Some (case req_Body req of None \<Rightarrow> '''' | Some b \<Rightarrow> b)\<rparr>,
      Inr (req_Method req @ '' '' @ URL_String (req_URL req)))"

definition example_DumpResponse :: "Response \<Rightarrow> bool \<Rightarrow> Response \<times> (error + string)" where
  "example_DumpResponse resp body =
     (case failure (resp_Body resp) of
        None \<Rightarrow> (resp, Inr (resp_Status resp @ LF @ pending (resp_Body resp)))
      | Some e \<Rightarrow> (resp\<lparr>resp_Body := \<lparr>pending = '''', failure = Some e\<rparr>\<rparr>, Inl e))"

definition example_Do :: "Response \<Rightarrow> HTTPRequestDoer" where
  "example_Do r = (\<lambda>st req. (st, Some (r\<lparr>resp_Request := Some req\<rparr>), None))"

definition example_lib :: "Response \<Rightarrow> string stdlib" where
  "example_lib r =
     \<lparr>url_Parse = example_url_Parse,
      removeEmptyPort = (\<lambda>u. u),
      json_Decode_FaultResponse = example_Decode_FaultResponse,
      json_Decode_APIResponse = example_Decode_APIResponse,
      DumpRequestOut = example_DumpRequestOut,
      DumpResponse = example_DumpResponse,
      DefaultTransport_RoundTrip = example_Do r,
      Config_Client = (\<lambda>cfg x. example_Do r)\<rparr>"

definition response_200 :: Response where
  "response_200 = \<lparr>resp_Status = ''200 OK'', resp_StatusCode = 200,
                    resp_Body = \<lparr>pending = issues_json, failure = None\<rparr>,
                    resp_Request = None\<rparr>"

definition response_403 :: Response where
  "response_403 = \<lparr>resp_Status = ''403 Forbidden'', resp_StatusCode = 403,
                    resp_Body = \<lparr>pending = fault_json, failure = None\<rparr>,
                    resp_Request = None\<rparr>"

definition response_200_html :: Response where
  "response_200_html = \<lparr>resp_Status = ''200 OK'', resp_StatusCode = 200,
                         resp_Body = \<lparr>pending = ''<html>'', failure = None\<rparr>,
                         resp_Request = None\<rparr>"

text \<open>
  \<open>response_200_cut\<close>: the server sends the whole JSON value and then the connection
  breaks before the announced length is reached, so that reading the body gives the value
  and then fails.
\<close>

definition response_200_cut :: Response where
  "response_200_cut = \<lparr>resp_Status = ''200 OK'', resp_StatusCode = 200,
                        resp_Body = \<lparr>pending = issues_json,
                                     failure = Some (Err ''unexpected EOF'')\<rparr>,
                        resp_Request = None\<rparr>"

definition example_store :: store where
  "example_store = \<lparr>maps = (\<lambda>a. Map.empty), fresh = 0\<rparr>"

definition example_client :: "Response \<Rightarrow> Client" where
  "example_client r =
     \<lparr>Server = ''https://example.com/api/'', Wellness = Some \<lparr>Version = ''v1''\<rparr>,
      innerClient = Some (example_Do r),
      oauthConfig = Some \<lparr>ClientID = '''', ClientSecret = '''',
                           TokenURL = ''https://example.com/api/oauth/token'', Scopes = ['''']\<rparr>,
      ctx = Some (WithValue_HTTPClient Background
                    \<lparr>Transport = BearerAuthTransport DefaultTransport\<rparr>),
      userAgent = ''go-infosight'', token = None, user = '''', password = '''',
      insecure = False, trace = False\<rparr>"

definition example_request :: "nat \<Rightarrow> Request" where
  "example_request a =
     \<lparr>req_Method = ''GET'',
      req_URL = URL ''https://example.com/api/wellness/v1/issues?domain=urn:nimble'',
      req_Header = Some a, req_Body = None, req_ctx = Background\<rparr>"

definition returned :: "(store \<times> string list \<times> 'a \<times> 'b) go \<Rightarrow> ('a \<times> 'b) option" where
  "returned g = (case g of Panic \<Rightarrow> None | Return (st, lg, v, e) \<Rightarrow> Some (v, e))"

definition answered ::
  "(store \<times> string list \<times> Request \<times> Response option \<times> error option) go
     \<Rightarrow> (Response option \<times> error option) option" where
  "answered g = (case g of Panic \<Rightarrow> None | Return (st, lg, q, r, e) \<Rightarrow> Some (r, e))"

definition sent ::
  "(store \<times> string list \<times> Request \<times> Response option \<times> error option) go
     \<Rightarrow> Request option" where
  "sent g = (case g of
               Return (st, lg, q, Some r, e) \<Rightarrow> resp_Request r
             | _ \<Rightarrow> None)"

definition forwarded :: "(store \<times> Response option \<times> error option) go \<Rightarrow> (Request \<times> Header) option" where
  "forwarded g =
     (case g of
        Return (st, Some r, e) \<Rightarrow>
          (case resp_Request r of
             Some q \<Rightarrow> (case req_Header q of Some b \<Rightarrow> Some (q, maps st b) | None \<Rightarrow> None)
           | None \<Rightarrow> None)
      | _ \<Rightarrow> None)"

definition bearer_store :: store where
  "bearer_store =
     \<lparr>maps = (\<lambda>a. Map.empty)
               (0 := [''Authorization'' \<mapsto> [''BearerToken abc123''],
                      ''Accept'' \<mapsto> [''application/json'']]),
      fresh = 1\<rparr>"

definition plain_store :: store where
  "plain_store =
     \<lparr>maps = (\<lambda>a. Map.empty)(0 := [''Accept'' \<mapsto> [''application/json'']]), fresh = 1\<rparr>"

definition request_store :: store where
  "request_store = \<lparr>maps = (\<lambda>a. Map.empty), fresh = 1\<rparr>"

definition sent_store :: store where
  "sent_store =
     \<lparr>maps = (\<lambda>a. Map.empty)
               (0 := [''User-Agent'' \<mapsto> [''go-infosight''],
                      ''Accept'' \<mapsto> [''application/json''],
                      ''Content-Type'' \<mapsto> [''application/json'']]),
      fresh = 1\<rparr>"

section \<open>Properties\<close>

lemma HasSuffix_single: "HasSuffix s [c] \<longleftrightarrow> s \<noteq> [] \<and> last s = c"
proof (cases s rule: rev_cases)
  case Nil
  then show ?thesis by (simp add: HasSuffix_def)
next
  case (snoc ys y)
  then show ?thesis by (auto simp add: HasSuffix_def)
qed

lemma HasSuffix_double:
  "HasSuffix s [c, c] \<longleftrightarrow> (\<exists>t. s = t @ [c, c])"
proof
  assume "HasSuffix s [c, c]"
  then have "s = take (length s - 2) s @ [c, c]"
    by (metis HasSuffix_def append_take_drop_id length_Cons list.size(3) numeral_2_eq_2)
  then show "\<exists>t. s = t @ [c, c]" by blast
next
  assume "\<exists>t. s = t @ [c, c]"
  then show "HasSuffix s [c, c]" by (auto simp add: HasSuffix_def)
qed

lemma TrimRight_last:
  "TrimRight s cutset \<noteq> [] \<Longrightarrow> last (TrimRight s cutset) \<notin> set cutset"
proof -
  assume ne: "TrimRight s cutset \<noteq> []"
  let ?d = "dropWhile (\<lambda>c. c \<in> set cutset) (rev s)"
  from ne have "?d \<noteq> []" by (simp add: TrimRight_def)
  then have "hd ?d \<notin> set cutset" using hd_dropWhile by metis
  moreover have "last (TrimRight s cutset) = hd ?d"
    using \<open>?d \<noteq> []\<close> by (simp add: TrimRight_def last_rev)
  ultimately show ?thesis by simp
qed

lemma one_trailing_slash_snoc:
  "s = [] \<or> last s \<noteq> CHR ''/'' \<Longrightarrow> one_trailing_slash (s @ ''/'')"
  by (auto simp add: one_trailing_slash_def HasSuffix_single HasSuffix_double)

lemma one_trailing_slash_defaultServer: "one_trailing_slash defaultServer"
  by (simp add: one_trailing_slash_def defaultServer_def HasSuffix_def)


lemma apply_options_append:
  "apply_options (pre @ post) c =
     (case apply_options pre c of Inl e \<Rightarrow> Inl e | Inr c1 \<Rightarrow> apply_options post c1)"
  by (induction pre arbitrary: c) (auto split: prod.splits option.splits)

lemma apply_options_preserves:
  assumes "\<forall>opt\<in>set opts. \<forall>c0. f (fst (opt c0)) = f c0"
      and "apply_options opts c = Inr c1"
  shows "f c1 = f c"
  using assms
proof (induction opts arbitrary: c)
  case Nil
  then show ?case by simp
next
  case (Cons opt opts)
  obtain c2 e where oc: "opt c = (c2, e)" by (cases "opt c")
  with Cons.prems(2) have e: "e = None" and rest: "apply_options opts c2 = Inr c1"
    by (auto split: option.splits)
  have "f c2 = f c" using Cons.prems(1) oc by (metis fst_conv list.set_intros(1))
  moreover have "f c1 = f c2" using Cons.IH Cons.prems(1) rest by simp
  ultimately show ?case by simp
qed

lemma WithBaseURL_error:
  "url_Parse lib b = Inl e \<Longrightarrow> WithBaseURL lib b c = (c, Some e)"
  by (simp add: WithBaseURL_def)

text \<open>
  Claim C9. If the options before \<open>opt\<close> succeed one after the other and \<open>opt\<close> returns the
  error \<open>err\<close> on the client they leave, then \<open>NewClient\<close> returns that error and no
  client, whatever options \<open>post\<close> follow: none of them is applied. \<open>WithBaseURL\<close> returns
  the parser's error when its URL does not parse.
\<close>

theorem NewClient_aborts_on_option_error:
  assumes "apply_options pre
             (zero_Client\<lparr>Server := TrimRight baseURL ''/'', userAgent := ''go-infosight''\<rparr>)
           = Inr c1"
      and "snd (opt c1) = Some err"
  shows "NewClient lib baseURL (pre @ opt # post) = Inl err
         \<and> (\<forall>b e c. url_Parse lib b = Inl e \<longrightarrow> WithBaseURL lib b c = (c, Some e))"
proof -
  obtain c2 where "opt c1 = (c2, Some err)"
    using assms(2) by (cases "opt c1") auto
  then have "apply_options (pre @ opt # post)
               (zero_Client\<lparr>Server := TrimRight baseURL ''/'', userAgent := ''go-infosight''\<rparr>)
             = Inl err"
    using assms(1) by (simp add: apply_options_append)
  then have "NewClient lib baseURL (pre @ opt # post) = Inl err"
    by (simp add: NewClient_def Let_def)
  then show ?thesis by (simp add: WithBaseURL_error)
qed

lemma NewClient_options_ok:
  assumes "NewClient lib baseURL opts = Inr c"
  shows "\<exists>c1. apply_options opts
           (zero_Client\<lparr>Server := TrimRight baseURL ''/'', userAgent := ''go-infosight''\<rparr>) = Inr c1"
  using assms
  by (cases "apply_options opts
           (zero_Client\<lparr>Server := TrimRight baseURL ''/'', userAgent := ''go-infosight''\<rparr>)")
     (simp_all add: NewClient_def Let_def)

lemma NewClient_fields:
  assumes "NewClient lib baseURL opts = Inr c"
      and "apply_options opts
           (zero_Client\<lparr>Server := TrimRight baseURL ''/'', userAgent := ''go-infosight''\<rparr>) = Inr c1"
  shows "Server c = (if HasSuffix (if Server c1 = '''' then defaultServer else Server c1) ''/''
                  then (if Server c1 = '''' then defaultServer else Server c1)
                  else (if Server c1 = '''' then defaultServer else Server c1) @ ''/'')"
    and "userAgent c = userAgent c1"
    and "trace c = trace c1"
    and "ctx c = Some (WithValue_HTTPClient (case ctx c1 of Some x \<Rightarrow> x | None \<Rightarrow> Background)
                         \<lparr>Transport = BearerAuthTransport DefaultTransport\<rparr>)"
    and "innerClient c \<noteq> None"
  using assms by (auto simp add: NewClient_def Let_def split: if_splits)

lemma NewClient_Server_suffix:
  assumes "NewClient lib baseURL opts = Inr c"
  shows "HasSuffix (Server c) ''/''"
proof -
  from NewClient_options_ok [OF assms] obtain c1 where
    ap: "apply_options opts
           (zero_Client\<lparr>Server := TrimRight baseURL ''/'', userAgent := ''go-infosight''\<rparr>) = Inr c1" ..
  show ?thesis
    using NewClient_fields(1) [OF assms ap]
    by (auto simp add: Let_def HasSuffix_single defaultServer_def split: if_splits)
qed

lemma NewClient_Server_unchanged_by_options:
  assumes "NewClient lib baseURL opts = Inr c"
      and keep: "\<forall>opt\<in>set opts. \<forall>c0. Server (fst (opt c0)) = Server c0"
  shows "one_trailing_slash (Server c)"
    and "Server c = (if TrimRight baseURL ''/'' = '''' then defaultServer
                     else TrimRight baseURL ''/'' @ ''/'')"
proof -
  from NewClient_options_ok [OF assms(1)] obtain c1 where
    ap: "apply_options opts
           (zero_Client\<lparr>Server := TrimRight baseURL ''/'', userAgent := ''go-infosight''\<rparr>) = Inr c1" ..
  note sv = NewClient_fields(1) [OF assms(1) ap]
  have s1: "Server c1 = TrimRight baseURL ''/''"
    using apply_options_preserves [OF keep ap] by simp
  have nolast: "TrimRight baseURL ''/'' \<noteq> [] \<Longrightarrow> last (TrimRight baseURL ''/'') \<noteq> CHR ''/''"
    using TrimRight_last [of baseURL "''/''"] by simp
  show eq: "Server c = (if TrimRight baseURL ''/'' = '''' then defaultServer
                            else TrimRight baseURL ''/'' @ ''/'')"
    using sv s1 nolast
    by (auto simp add: Let_def HasSuffix_single defaultServer_def)
  show "one_trailing_slash (Server c)"
    using eq nolast one_trailing_slash_defaultServer one_trailing_slash_snoc [of "TrimRight baseURL ''/''"]
    by (auto split: if_splits)
qed

lemma NewClient_Server_one_slash_iff:
  assumes "NewClient lib baseURL opts = Inr c"
      and ap: "apply_options opts
           (zero_Client\<lparr>Server := TrimRight baseURL ''/'', userAgent := ''go-infosight''\<rparr>) = Inr c1"
  shows "one_trailing_slash (Server c) \<longleftrightarrow> \<not> HasSuffix (Server c1) ''//''"
proof -
  note sv = NewClient_fields(1) [OF assms(1) ap]
  show ?thesis
  proof (cases "Server c1 = ''''")
    case True
    then have "Server c = defaultServer"
      using sv by (simp add: HasSuffix_single defaultServer_def)
    then show ?thesis
      using True one_trailing_slash_defaultServer by (simp add: HasSuffix_def)
  next
    case False
    show ?thesis
    proof (cases "HasSuffix (Server c1) ''/''")
      case True
      then have "Server c = Server c1" using sv False by simp
      then show ?thesis using True by (simp add: one_trailing_slash_def)
    next
      case nos: False
      then have eq: "Server c = Server c1 @ ''/''" using sv False by simp
      have l: "last (Server c1) \<noteq> CHR ''/''"
        using nos False by (simp add: HasSuffix_single)
      then have "\<not> HasSuffix (Server c1) ''//''"
        by (auto simp add: HasSuffix_double)
      moreover have "one_trailing_slash (Server c)"
        using eq l one_trailing_slash_snoc [of "Server c1"] by simp
      ultimately show ?thesis by simp
    qed
  qed
qed

lemma do_Return:
  assumes "ctx c = Some x" and "req_Header req = Some a" and "innerClient c = Some doer"
      and "doer (st\<lparr>maps := (maps st)(a := (maps st a)(''User-Agent'' \<mapsto> [userAgent c],
                   ''Accept'' \<mapsto> [''application/json''],
                   ''Content-Type'' \<mapsto> [''application/json'']))\<rparr>) req = (st4, r, e)"
  shows "\<exists>lg1. do lib c st lg req
           = Return (st4, lg1,
               if trace c then fst (DumpRequestOut lib st4 req True) else req,
               if trace c then map_option (\<lambda>r0. fst (DumpResponse lib r0 True)) r else r,
               e)"
    and "\<not> trace c \<Longrightarrow> do lib c st lg req = Return (st4, lg, req, r, e)"
  using assms
  by (auto simp add: do_def Header_Set_def Let_def split: prod.splits option.splits sum.splits)

lemma do_Panic:
  "ctx c = None \<or> req_Header req = None \<or> innerClient c = None \<Longrightarrow> do lib c st lg req = Panic"
  by (auto simp add: do_def Header_Set_def Let_def split: option.splits go.splits)

lemma cloneRequest_eq:
  "cloneRequest st req =
     (\<lparr>maps = (maps st)(fresh st :=
            (case req_Header req of None \<Rightarrow> Map.empty
             | Some a \<Rightarrow> if a = fresh st then Map.empty else maps st a)),
       fresh = Suc (fresh st)\<rparr>,
      req\<lparr>req_Header := Some (fresh st)\<rparr>)"
proof -
  have m: "(\<lambda>k. map_option (\<lambda>s. s) (f k)) = f" for f :: Header
    by (rule ext) (simp add: option.map_ident)
  show ?thesis
    by (cases st; cases "req_Header req")
       (simp_all add: cloneRequest_def make_Header_def Let_def m)
qed

lemma RoundTrip_shim:
  "RoundTrip lib (BearerAuthTransport t) st req =
     RoundTrip lib t
       \<lparr>maps = (maps st)(fresh st :=
            (case req_Header req of None \<Rightarrow> Map.empty
             | Some a \<Rightarrow> if a = fresh st then Map.empty else maps st a)
            (''Authorization'' \<mapsto>
               [if HasPrefix (Header_Get st (req_Header req) ''Authorization'') ''BearerToken ''
                then ''Bearer '' @ drop 12 (Header_Get st (req_Header req) ''Authorization'')
                else Header_Get st (req_Header req) ''Authorization''])),
         fresh = Suc (fresh st)\<rparr>
       (req\<lparr>req_Header := Some (fresh st)\<rparr>)"
  by (simp add: cloneRequest_eq Header_Set_def Let_def)


lemma RoundTrip_single_value:
  assumes "req_Header req = Some a" and "a < fresh st"
      and "maps st a ''Authorization'' = Some [v]" and "\<not> HasPrefix v ''BearerToken ''"
  shows "RoundTrip lib (BearerAuthTransport t) st req
           = RoundTrip lib t \<lparr>maps = (maps st)(fresh st := maps st a), fresh = Suc (fresh st)\<rparr>
               (req\<lparr>req_Header := Some (fresh st)\<rparr>)"
proof -
  have "(maps st a)(''Authorization'' \<mapsto> [v]) = maps st a"
    using assms(3) by (rule map_upd_triv)
  then show ?thesis
    using assms by (subst RoundTrip_shim) (simp add: Header_Get_def)
qed

text \<open>
  Claim C4. A request whose header map is allocated and whose \<open>Authorization\<close> header reads
  \<open>BearerToken v\<close> is forwarded to the underlying transport, whatever that transport is, as
  a request that differs from the original in its header map only. The new map is at an
  address \<open>b\<close> other than the original's; it holds the original's entries with
  \<open>Authorization\<close> replaced by the single value \<open>Bearer v\<close>; and no map that existed
  before, the original's among them, is changed.
\<close>

theorem RoundTrip_rewrites_BearerToken:
  assumes "req_Header req = Some a" and "a < fresh st"
      and "Header_Get st (req_Header req) ''Authorization'' = ''BearerToken '' @ v"
  shows "\<exists>st1 b.
           (\<forall>lib t. RoundTrip lib (BearerAuthTransport t) st req
                      = RoundTrip lib t st1 (req\<lparr>req_Header := Some b\<rparr>))
           \<and> Header_Get st1 (Some b) ''Authorization'' = ''Bearer '' @ v
           \<and> maps st1 b = (maps st a)(''Authorization'' \<mapsto> [''Bearer '' @ v])
           \<and> b \<noteq> a
           \<and> (\<forall>a'. a' \<noteq> b \<longrightarrow> maps st1 a' = maps st a')"
proof -
  let ?b = "fresh st"
  let ?st1 = "\<lparr>maps = (maps st)(?b := (maps st a)(''Authorization'' \<mapsto> [''Bearer '' @ v])),
               fresh = Suc (fresh st)\<rparr>"
  have pre: "HasPrefix (''BearerToken '' @ v) ''BearerToken ''"
    by (simp add: HasPrefix_def)
  have ne: "a \<noteq> ?b" using assms(2) by simp
  have fwd: "RoundTrip lib (BearerAuthTransport t) st req
               = RoundTrip lib t ?st1 (req\<lparr>req_Header := Some ?b\<rparr>)" for lib :: "'j stdlib" and t
    using assms(1) ne pre by (simp add: RoundTrip_shim assms(3)[simplified assms(1)] del: RoundTrip.simps)
  have "Header_Get ?st1 (Some ?b) ''Authorization'' = ''Bearer '' @ v"
    by (simp add: Header_Get_def)
  moreover have "maps ?st1 ?b = (maps st a)(''Authorization'' \<mapsto> [''Bearer '' @ v])"
    by simp
  moreover have "\<forall>a'. a' \<noteq> ?b \<longrightarrow> maps ?st1 a' = maps st a'"
    by simp
  ultimately show ?thesis using fwd ne by blast
qed

lemma GetObjectSet_after_do:
  assumes "http_NewRequest lib st ''GET''
             (Server c @ ''wellness/'' @ Version w @ ''/'' @ objectSet @ ''?domain=urn:nimble'')
             None = (st1, Inr req)"
      and "do lib c st1 lg req = Return (st2, lg2, q, Some r, None)"
  shows "GetObjectSet lib c w st lg objectSet =
           (if resp_StatusCode r > 399
            then (case NewFaultResponse lib r of
                    (p, e) \<Rightarrow> Return (st2, lg2, Some (FaultResponse_ptr p), e))
            else (case json_Decode_APIResponse lib (resp_Body r) of
                    Inl e \<Rightarrow> Return (st2, lg2, None, Some e)
                  | Inr a \<Rightarrow> Return (st2, lg2, Some (APIResponse_value a), None)))"
  using assms by (simp add: GetObjectSet_def)

text \<open>
  Claim C6. When the exchange that \<open>GetObjectSet\<close> starts returns a response with a status
  from 200 to 399 and no error: if the body decodes as an \<open>APIResponse\<close>,
  \<open>GetObjectSet\<close> returns exactly the decoded envelope (so its \<open>Data\<close> is the decoded
  \<open>data\<close>, nil when the body has none) and a nil error; if decoding fails, it returns
  nil and the decoder's error.
\<close>

theorem GetObjectSet_success_envelope:
  assumes "http_NewRequest lib st ''GET''
             (Server c @ ''wellness/'' @ Version w @ ''/'' @ objectSet @ ''?domain=urn:nimble'')
             None = (st1, Inr req)"
      and "do lib c st1 lg req = Return (st2, lg2, q, Some r, None)"
      and "200 \<le> resp_StatusCode r" and "resp_StatusCode r \<le> 399"
  shows "(\<forall>a. json_Decode_APIResponse lib (resp_Body r) = Inr a \<longrightarrow>
            GetObjectSet lib c w st lg objectSet
              = Return (st2, lg2, Some (APIResponse_value a), None))
         \<and> (\<forall>e. json_Decode_APIResponse lib (resp_Body r) = Inl e \<longrightarrow>
            GetObjectSet lib c w st lg objectSet = Return (st2, lg2, None, Some e))"
  using assms(4) by (simp add: GetObjectSet_after_do [OF assms(1,2)])

lemma GetObjectSet_fault_envelope:
  assumes "http_NewRequest lib st ''GET''
             (Server c @ ''wellness/'' @ Version w @ ''/'' @ objectSet @ ''?domain=urn:nimble'')
             None = (st1, Inr req)"
      and "do lib c st1 lg req = Return (st2, lg2, q, Some r, None)"
      and "resp_StatusCode r > 399"
      and "json_Decode_FaultResponse lib (resp_Body r) = Inr f"
  shows "GetObjectSet lib c w st lg objectSet
           = Return (st2, lg2,
               Some (FaultResponse_ptr
                 (Some (f\<lparr>Status := resp_Status r, StatusCode := resp_StatusCode r\<rparr>))),
               None)"
    and "Error (Some (f\<lparr>Status := resp_Status r, StatusCode := resp_StatusCode r\<rparr>))
           = Return (case Fault f of Some ft \<Rightarrow> FaultString ft | None \<Rightarrow> resp_Status r)"
  using assms(3,4)
  by (simp_all add: GetObjectSet_after_do [OF assms(1,2)] NewFaultResponse_def Error_def
        split: option.splits)

lemma GetObjectSet_bad_URL:
  assumes "url_Parse lib (Server c @ ''wellness/'' @ Version w @ ''/'' @ objectSet
             @ ''?domain=urn:nimble'') = Inl e"
  shows "GetObjectSet lib c w st lg objectSet = Return (st, lg, None, Some e)"
  using assms by (simp add: GetObjectSet_def http_NewRequest_def)

lemma NewRequest_GET:
  assumes "url_Parse lib url = Inr u"
  shows "http_NewRequest lib st ''GET'' url None
           = (\<lparr>maps = (maps st)(fresh st := Map.empty), fresh = Suc (fresh st)\<rparr>,
              Inr \<lparr>req_Method = ''GET'', req_URL = removeEmptyPort lib u,
                   req_Header = Some (fresh st), req_Body = None, req_ctx = Background\<rparr>)"
  using assms by (cases st) (simp add: http_NewRequest_def make_Header_def)

lemma GetObjectSet_of_answer:
  assumes "ctx c = Some x"
      and "url_Parse lib (Server c @ ''wellness/'' @ Version w @ ''/'' @ objectSet
             @ ''?domain=urn:nimble'') = Inr u"
      and "doer \<lparr>maps = (maps st)(fresh st := [''User-Agent'' \<mapsto> [userAgent c],
                   ''Accept'' \<mapsto> [''application/json''],
                   ''Content-Type'' \<mapsto> [''application/json'']]), fresh = Suc (fresh st)\<rparr>
             \<lparr>req_Method = ''GET'', req_URL = removeEmptyPort lib u, req_Header = Some (fresh st),
              req_Body = None, req_ctx = Background\<rparr>
           = (st2, r, e)"
  shows "\<exists>lg2. GetObjectSet lib (c\<lparr>innerClient := Some doer\<rparr>) w st lg objectSet
           = (case e of
                Some err \<Rightarrow> Return (st2, lg2, None, Some err)
              | None \<Rightarrow>
                  (case (if trace c then map_option (\<lambda>r0. fst (DumpResponse lib r0 True)) r else r) of
                     None \<Rightarrow> Panic
                   | Some r1 \<Rightarrow>
                       if resp_StatusCode r1 > 399
                       then (case NewFaultResponse lib r1 of
                               (p, e1) \<Rightarrow> Return (st2, lg2, Some (FaultResponse_ptr p), e1))
                       else (case json_Decode_APIResponse lib (resp_Body r1) of
                               Inl e1 \<Rightarrow> Return (st2, lg2, None, Some e1)
                             | Inr a \<Rightarrow> Return (st2, lg2, Some (APIResponse_value a), None))))"
proof -
  let ?c = "c\<lparr>innerClient := Some doer\<rparr>"
  let ?st0 = "\<lparr>maps = (maps st)(fresh st := Map.empty), fresh = Suc (fresh st)\<rparr>"
  let ?req = "\<lparr>req_Method = ''GET'', req_URL = removeEmptyPort lib u, req_Header = Some (fresh st),
              req_Body = None, req_ctx = Background\<rparr>"
  have nr: "http_NewRequest lib st ''GET''
              (Server ?c @ ''wellness/'' @ Version w @ ''/'' @ objectSet @ ''?domain=urn:nimble'')
              None = (?st0, Inr ?req)"
    using NewRequest_GET [OF assms(2)] by simp
  have d: "doer (?st0\<lparr>maps := (maps ?st0)(fresh st := (maps ?st0 (fresh st))
                   (''User-Agent'' \<mapsto> [userAgent ?c],
                    ''Accept'' \<mapsto> [''application/json''],
                    ''Content-Type'' \<mapsto> [''application/json'']))\<rparr>) ?req = (st2, r, e)"
    using assms(3) by simp
  obtain lg2 where dr: "do lib ?c ?st0 lg ?req
           = Return (st2, lg2,
               if trace ?c then fst (DumpRequestOut lib st2 ?req True) else ?req,
               if trace ?c then map_option (\<lambda>r0. fst (DumpResponse lib r0 True)) r else r,
               e)"
    using do_Return(1) [where c = ?c and x = x and a = "fresh st" and doer = doer
                          and req = ?req and st = ?st0 and lib = lib and lg = lg, OF _ _ _ d]
          assms(1)
    by auto
  show ?thesis
    by (rule exI [of _ lg2])
       (simp add: GetObjectSet_def nr [simplified] dr [simplified] split: option.splits)
qed

text \<open>
  Claim C7, as amended. On a client with a context (every client that \<open>NewClient\<close> returns
  has one): if the URL made of the server URL, \<open>wellness/\<close>, the version, a slash, the name
  of the object set and \<open>?domain=urn:nimble\<close> is accepted by the URL parser, there is a
  request with method \<open>GET\<close>, that URL and no body which \<open>GetObjectSet\<close> hands to the
  transport, whatever the transport is, and the result is made of the transport's answer
  to it: the store and the error are the transport's, and a response without error is
  decoded according to its status. If the parser rejects the URL, \<open>GetObjectSet\<close>
  returns the parser's error and asks nothing of the transport. \<open>GetIssues\<close> is
  \<open>GetObjectSet\<close> for the name \<open>issues\<close>.
\<close>

theorem GetObjectSet_request_URL:
  assumes "ctx c = Some x"
  shows "(\<forall>u. url_Parse lib (Server c @ ''wellness/'' @ Version w @ ''/'' @ objectSet
                  @ ''?domain=urn:nimble'') = Inr u \<longrightarrow>
            (\<exists>st1 req. req_Method req = ''GET'' \<and> req_URL req = removeEmptyPort lib u
               \<and> req_Body req = None
               \<and> (\<forall>doer. \<exists>lg2.
                     GetObjectSet lib (c\<lparr>innerClient := Some doer\<rparr>) w st lg objectSet
                       = (case doer st1 req of
                            (st2, r, e) \<Rightarrow>
                              (case e of
                                 Some err \<Rightarrow> Return (st2, lg2, None, Some err)
                               | None \<Rightarrow>
                                   (case (if trace c
                                          then map_option (\<lambda>r0. fst (DumpResponse lib r0 True)) r
                                          else r) of
                                      None \<Rightarrow> Panic
                                    | Some r1 \<Rightarrow>
                                        if resp_StatusCode r1 > 399
                                        then (case NewFaultResponse lib r1 of
                                                (p, e1) \<Rightarrow>
                                                  Return (st2, lg2, Some (FaultResponse_ptr p), e1))
                                        else (case json_Decode_APIResponse lib (resp_Body r1) of
                                                Inl e1 \<Rightarrow> Return (st2, lg2, None, Some e1)
                                              | Inr a \<Rightarrow>
                                                  Return (st2, lg2, Some (APIResponse_value a),
                                                          None))))))))
         \<and> (\<forall>e doer. url_Parse lib (Server c @ ''wellness/'' @ Version w @ ''/'' @ objectSet
                  @ ''?domain=urn:nimble'') = Inl e \<longrightarrow>
              GetObjectSet lib (c\<lparr>innerClient := Some doer\<rparr>) w st lg objectSet
                = Return (st, lg, None, Some e))
         \<and> GetIssues lib c w st lg = GetObjectSet lib c w st lg ''issues''"
proof (intro conjI allI impI)
  fix u
  assume p: "url_Parse lib (Server c @ ''wellness/'' @ Version w @ ''/'' @ objectSet
                  @ ''?domain=urn:nimble'') = Inr u"
  let ?st1 = "\<lparr>maps = (maps st)(fresh st := [''User-Agent'' \<mapsto> [userAgent c],
                   ''Accept'' \<mapsto> [''application/json''],
                   ''Content-Type'' \<mapsto> [''application/json'']]), fresh = Suc (fresh st)\<rparr>"
  let ?req = "\<lparr>req_Method = ''GET'', req_URL = removeEmptyPort lib u,
               req_Header = Some (fresh st), req_Body = None, req_ctx = Background\<rparr>"
  let ?out = "\<lambda>lg2 st2 r e.
      (case e of
         Some err \<Rightarrow> Return (st2, lg2, None, Some err)
       | None \<Rightarrow>
           (case (if trace c then map_option (\<lambda>r0. fst (DumpResponse lib r0 True)) r else r) of
              None \<Rightarrow> Panic
            | Some r1 \<Rightarrow>
                if resp_StatusCode r1 > 399
                then (case NewFaultResponse lib r1 of
                        (p, e1) \<Rightarrow> Return (st2, lg2, Some (FaultResponse_ptr p), e1))
                else (case json_Decode_APIResponse lib (resp_Body r1) of
                        Inl e1 \<Rightarrow> Return (st2, lg2, None, Some e1)
                      | Inr a \<Rightarrow> Return (st2, lg2, Some (APIResponse_value a), None))))"
  have "\<exists>lg2. GetObjectSet lib (c\<lparr>innerClient := Some doer\<rparr>) w st lg objectSet
                = (case doer ?st1 ?req of (st2, r, e) \<Rightarrow> ?out lg2 st2 r e)" for doer
  proof -
    obtain st2 r e where d: "doer ?st1 ?req = (st2, r, e)" by (cases "doer ?st1 ?req")
    from GetObjectSet_of_answer
           [where doer = doer and st = st and lg = lg and w = w and c = c, OF assms p d]
    obtain lg2 where g: "GetObjectSet lib (c\<lparr>innerClient := Some doer\<rparr>) w st lg objectSet
                        = ?out lg2 st2 r e" ..
    have "GetObjectSet lib (c\<lparr>innerClient := Some doer\<rparr>) w st lg objectSet
            = (case doer ?st1 ?req of (st2, r, e) \<Rightarrow> ?out lg2 st2 r e)"
      by (simp only: d prod.case g)
    then show ?thesis by (rule exI [of _ lg2])
  qed
  then have a: "\<forall>doer. \<exists>lg2.
                 GetObjectSet lib (c\<lparr>innerClient := Some doer\<rparr>) w st lg objectSet
                   = (case doer ?st1 ?req of (st2, r, e) \<Rightarrow> ?out lg2 st2 r e)"
    by (rule allI)
  have r1: "req_Method ?req = ''GET''" and r2: "req_URL ?req = removeEmptyPort lib u"
    and r3: "req_Body ?req = None"
    by simp_all
  show "\<exists>st1 req. req_Method req = ''GET'' \<and> req_URL req = removeEmptyPort lib u
               \<and> req_Body req = None
               \<and> (\<forall>doer. \<exists>lg2.
                     GetObjectSet lib (c\<lparr>innerClient := Some doer\<rparr>) w st lg objectSet
                       = (case doer st1 req of (st2, r, e) \<Rightarrow> ?out lg2 st2 r e))"
    by (rule exI [of _ ?st1], rule exI [of _ ?req], intro conjI, rule r1, rule r2, rule r3, rule a)
next
  fix e doer
  assume "url_Parse lib (Server c @ ''wellness/'' @ Version w @ ''/'' @ objectSet
                  @ ''?domain=urn:nimble'') = Inl e"
  then show "GetObjectSet lib (c\<lparr>innerClient := Some doer\<rparr>) w st lg objectSet
                = Return (st, lg, None, Some e)"
    using GetObjectSet_bad_URL [where c = "c\<lparr>innerClient := Some doer\<rparr>"] by simp
next
  show "GetIssues lib c w st lg = GetObjectSet lib c w st lg ''issues''"
    by (simp add: GetIssues_def)
qed

lemma builtin_options_keep_userAgent:
  assumes "(\<exists>t. opt = WithTrace t) \<or> (\<exists>x. opt = WithContext x)
           \<or> (\<exists>u p. opt = WithLogin u p) \<or> (\<exists>b. opt = WithBaseURL lib b)"
  shows "userAgent (fst (opt c0)) = userAgent c0"
  using assms
  by (auto simp add: WithTrace_def WithContext_def WithLogin_def WithBaseURL_def
        split: sum.splits)

text \<open>
  Claim C10. A client built by \<open>NewClient\<close> from options other than \<open>WithUserAgent\<close> has
  the user agent \<open>go-infosight\<close>, and \<open>do\<close> hands every request that has a header map to
  the transport in a store where the request's \<open>User-Agent\<close> header is \<open>go-infosight\<close>:
  the store and the error that \<open>do\<close> returns are the transport's answer to that request,
  and so is the response, after the dump when tracing is on.
\<close>

theorem default_User_Agent:
  assumes "NewClient lib baseURL opts = Inr c"
      and "\<forall>opt\<in>set opts. (\<exists>t. opt = WithTrace t) \<or> (\<exists>x. opt = WithContext x)
             \<or> (\<exists>u p. opt = WithLogin u p) \<or> (\<exists>b. opt = WithBaseURL lib b)"
      and "req_Header req = Some a"
  shows "userAgent c = ''go-infosight''
         \<and> (\<exists>st1. Header_Get st1 (req_Header req) ''User-Agent'' = ''go-infosight''
               \<and> (\<forall>doer. \<exists>lg1. do lib (c\<lparr>innerClient := Some doer\<rparr>) st lg req
                     = (case doer st1 req of
                          (st2, r, e) \<Rightarrow>
                            Return (st2, lg1,
                              if trace c then fst (DumpRequestOut lib st2 req True) else req,
                              if trace c then map_option (\<lambda>r0. fst (DumpResponse lib r0 True)) r
                              else r,
                              e))))"
proof -
  from NewClient_options_ok [OF assms(1)] obtain c1 where
    ap: "apply_options opts
           (zero_Client\<lparr>Server := TrimRight baseURL ''/'', userAgent := ''go-infosight''\<rparr>) = Inr c1" ..
  have keep: "\<forall>opt\<in>set opts. \<forall>c0. userAgent (fst (opt c0)) = userAgent c0"
    using assms(2) builtin_options_keep_userAgent by blast
  have ua: "userAgent c = ''go-infosight''"
    using NewClient_fields(2) [OF assms(1) ap] apply_options_preserves [OF keep ap] by simp
  obtain x where cx: "ctx c = Some x"
    using NewClient_fields(4) [OF assms(1) ap] by simp
  let ?st1 = "st\<lparr>maps := (maps st)(a := (maps st a)(''User-Agent'' \<mapsto> [userAgent c],
                   ''Accept'' \<mapsto> [''application/json''],
                   ''Content-Type'' \<mapsto> [''application/json'']))\<rparr>"
  have hdr: "Header_Get ?st1 (req_Header req) ''User-Agent'' = ''go-infosight''"
    by (simp add: Header_Get_def assms(3) ua)
  have "\<exists>lg1. do lib (c\<lparr>innerClient := Some doer\<rparr>) st lg req
             = (case doer ?st1 req of
                  (st2, r, e) \<Rightarrow>
                    Return (st2, lg1,
                      if trace c then fst (DumpRequestOut lib st2 req True) else req,
                      if trace c then map_option (\<lambda>r0. fst (DumpResponse lib r0 True)) r else r,
                      e))" for doer
  proof -
    obtain st4 r e where d: "doer ?st1 req = (st4, r, e)" by (cases "doer ?st1 req")
    have "\<exists>lg1. do lib (c\<lparr>innerClient := Some doer\<rparr>) st lg req
            = Return (st4, lg1,
                if trace (c\<lparr>innerClient := Some doer\<rparr>)
                then fst (DumpRequestOut lib st4 req True) else req,
                if trace (c\<lparr>innerClient := Some doer\<rparr>)
                then map_option (\<lambda>r0. fst (DumpResponse lib r0 True)) r else r,
                e)"
      by (rule do_Return(1) [where x = x and a = a and doer = doer])
         (simp_all add: assms(3) cx d)
    then show ?thesis by (simp add: d)
  qed
  with hdr ua show ?thesis by blast
qed

lemma NewClient_example:
  "NewClient (example_lib r) ''https://example.com/api'' [] = Inr (example_client r)"
  by (simp add: NewClient_def Let_def zero_Client_def TrimRight_def HasSuffix_def
        example_client_def example_lib_def NewWellness_def defaultVersion_def)

lemma NewClient_example_trace:
  "NewClient (example_lib r) ''https://example.com/api'' [WithTrace True]
     = Inr ((example_client r)\<lparr>trace := True\<rparr>)"
  by (simp add: NewClient_def Let_def zero_Client_def TrimRight_def HasSuffix_def
        example_client_def example_lib_def NewWellness_def defaultVersion_def WithTrace_def)

lemma NewRequest_example:
  "http_NewRequest (example_lib r) example_store ''GET''
     (Server (example_client r) @ ''wellness/'' @ ''v1'' @ ''/'' @ ''issues''
        @ ''?domain=urn:nimble'') None
   = (request_store, Inr (example_request 0))"
proof -
  have "(\<lambda>a. Map.empty)(0 := Map.empty) = (\<lambda>a::nat. (Map.empty :: Header))"
    by (rule ext) simp
  then show ?thesis
    by (simp add: http_NewRequest_def example_lib_def example_url_Parse_def make_Header_def
          example_store_def example_client_def example_request_def Let_def request_store_def)
qed

lemma do_example:
  "do (example_lib r) (example_client r) request_store [] (example_request 0)
     = Return (sent_store, [], example_request 0,
         Some (r\<lparr>resp_Request := Some (example_request 0)\<rparr>), None)"
  by (simp add: do_def example_client_def example_request_def Header_Set_def Let_def
        example_Do_def sent_store_def request_store_def)

lemma do_example_trace:
  "answered (do (example_lib r) ((example_client r)\<lparr>trace := True\<rparr>) request_store []
               (example_request 0))
     = Some (Some (fst (example_DumpResponse (r\<lparr>resp_Request := Some (example_request 0)\<rparr>)
                          True)), None)"
  by (simp add: do_def example_client_def example_request_def Header_Set_def Let_def
        example_Do_def request_store_def example_lib_def answered_def
        example_DumpRequestOut_def example_DumpResponse_def split: option.splits)

text \<open>
  Claim C1 does not hold of the code. For the response \<open>403 Forbidden\<close> with a fault body,
  \<open>GetIssues\<close> returns the fault envelope as its first result and nil as its error. The
  message of the envelope is the fault string, as the claim says.
\<close>

theorem GetIssues_fault_is_returned_as_value:
  "returned (GetIssues (example_lib response_403) (example_client response_403)
               \<lparr>Version = ''v1''\<rparr> example_store [])
     = Some (Some (FaultResponse_ptr
                (Some \<lparr>Status = ''403 Forbidden'', StatusCode = 403,
                        Fault = Some \<lparr>FaultString = ''forbidden'', Detail = None\<rparr>\<rparr>)),
             None)
   \<and> Error (Some \<lparr>Status = ''403 Forbidden'', StatusCode = 403,
                    Fault = Some \<lparr>FaultString = ''forbidden'', Detail = None\<rparr>\<rparr>)
       = Return ''forbidden''"
proof -
  have n: "http_NewRequest (example_lib response_403) example_store ''GET''
             (Server (example_client response_403) @ ''wellness/'' @ Version \<lparr>Version = ''v1''\<rparr>
                @ ''/'' @ ''issues'' @ ''?domain=urn:nimble'') None
           = (request_store, Inr (example_request 0))"
    using NewRequest_example [of response_403] by simp
  note g = GetObjectSet_after_do [OF n do_example]
  show ?thesis
    unfolding GetIssues_def g
    by (simp add: response_403_def NewFaultResponse_def example_lib_def
          example_Decode_FaultResponse_def returned_def Error_def)
qed

text \<open>
  Claim C2 does not hold of the code. The request that \<open>do\<close> passes to the transport
  still has its own context (here the background context of \<open>http.NewRequest\<close>), not the
  client's: the result of \<open>req.WithContext(c.ctx)\<close> is dropped.
\<close>

theorem do_leaves_the_request_context:
  "ctx (example_client response_200)
     = Some (WithValue_HTTPClient Background \<lparr>Transport = BearerAuthTransport DefaultTransport\<rparr>)
   \<and> map_option req_ctx
        (sent (do (example_lib response_200) (example_client response_200)
                 request_store [] (example_request 0)))
       = Some Background"
  by (simp add: do_example sent_def, simp add: example_client_def example_request_def)

text \<open>
  Claim C5 does not hold of the code. A base URL given with the override option and
  ending with two slashes is stored as it is: \<open>NewClient\<close> removes trailing slashes from its
  argument only, before the options run, and afterwards adds a slash only when there is
  none.
\<close>

theorem WithBaseURL_keeps_two_slashes:
  "map_sum id Server
     (NewClient (example_lib response_200) ''''
        [WithBaseURL (example_lib response_200) ''https://example.com/api//''])
     = Inr ''https://example.com/api//''
   \<and> \<not> one_trailing_slash ''https://example.com/api//''"
  by (simp add: NewClient_def Let_def zero_Client_def TrimRight_def HasSuffix_def
        WithBaseURL_def example_lib_def example_url_Parse_def one_trailing_slash_def)

text \<open>
  Claim C8 does not hold of the code. The transport answers with a response whose body
  gives a complete JSON value and then fails. With tracing off, \<open>do\<close> returns that
  response and \<open>GetIssues\<close> the decoded issues. With tracing on, \<open>DumpResponse\<close> reads the
  body, fails and leaves it read: \<open>do\<close> returns the response with nothing left in its
  body, and \<open>GetIssues\<close> returns the read error instead of the issues.
\<close>

theorem do_trace_changes_the_response:
  "answered (do (example_lib response_200_cut) (example_client response_200_cut)
               request_store [] (example_request 0))
     = Some (Some (response_200_cut\<lparr>resp_Request := Some (example_request 0)\<rparr>), None)
   \<and> answered (do (example_lib response_200_cut)
                  ((example_client response_200_cut)\<lparr>trace := True\<rparr>)
                  request_store [] (example_request 0))
       = Some (Some (response_200_cut
                       \<lparr>resp_Body := \<lparr>pending = '''', failure = Some (Err ''unexpected EOF'')\<rparr>,
                        resp_Request := Some (example_request 0)\<rparr>), None)
   \<and> returned (GetIssues (example_lib response_200_cut) (example_client response_200_cut)
                  \<lparr>Version = ''v1''\<rparr> example_store [])
       = Some (Some (APIResponse_value
                 \<lparr>api_Status = None, api_Request = None, Data = Some [issue_1]\<rparr>), None)
   \<and> returned (GetIssues (example_lib response_200_cut)
                  ((example_client response_200_cut)\<lparr>trace := True\<rparr>)
                  \<lparr>Version = ''v1''\<rparr> example_store [])
       = Some (None, Some (Err ''unexpected EOF''))"
proof (intro conjI)
  show "answered (do (example_lib response_200_cut) (example_client response_200_cut)
               request_store [] (example_request 0))
     = Some (Some (response_200_cut\<lparr>resp_Request := Some (example_request 0)\<rparr>), None)"
    by (simp add: do_example answered_def)
  show t: "answered (do (example_lib response_200_cut)
                  ((example_client response_200_cut)\<lparr>trace := True\<rparr>)
                  request_store [] (example_request 0))
       = Some (Some (response_200_cut
                       \<lparr>resp_Body := \<lparr>pending = '''', failure = Some (Err ''unexpected EOF'')\<rparr>,
                        resp_Request := Some (example_request 0)\<rparr>), None)"
    by (simp add: do_example_trace example_DumpResponse_def response_200_cut_def)
  show "returned (GetIssues (example_lib response_200_cut) (example_client response_200_cut)
                  \<lparr>Version = ''v1''\<rparr> example_store [])
       = Some (Some (APIResponse_value
                 \<lparr>api_Status = None, api_Request = None, Data = Some [issue_1]\<rparr>), None)"
  proof -
    have n0: "http_NewRequest (example_lib response_200_cut) example_store ''GET''
       (Server (example_client response_200_cut) @ ''wellness/'' @ Version \<lparr>Version = ''v1''\<rparr>
          @ ''/'' @ ''issues'' @ ''?domain=urn:nimble'') None
     = (request_store, Inr (example_request 0))"
      using NewRequest_example [of response_200_cut] by simp
    note g = GetObjectSet_after_do [OF n0 do_example]
    show ?thesis
      unfolding GetIssues_def g
      by (simp add: response_200_cut_def example_lib_def example_Decode_APIResponse_def
            returned_def)
  qed
  have n: "http_NewRequest (example_lib response_200_cut) example_store ''GET''
     (Server ((example_client response_200_cut)\<lparr>trace := True\<rparr>) @ ''wellness/''
        @ Version \<lparr>Version = ''v1''\<rparr> @ ''/'' @ ''issues'' @ ''?domain=urn:nimble'') None
   = (request_store, Inr (example_request 0))"
    using NewRequest_example [of response_200_cut] by simp
  from t obtain st2 lg2 q where
    d: "do (example_lib response_200_cut) ((example_client response_200_cut)\<lparr>trace := True\<rparr>)
          request_store [] (example_request 0)
        = Return (st2, lg2, q,
            Some (response_200_cut
                    \<lparr>resp_Body := \<lparr>pending = '''', failure = Some (Err ''unexpected EOF'')\<rparr>,
                     resp_Request := Some (example_request 0)\<rparr>), None)"
    by (auto simp add: answered_def split: go.splits)
  show "returned (GetIssues (example_lib response_200_cut)
                  ((example_client response_200_cut)\<lparr>trace := True\<rparr>)
                  \<lparr>Version = ''v1''\<rparr> example_store [])
       = Some (None, Some (Err ''unexpected EOF''))"
    unfolding GetIssues_def GetObjectSet_after_do [OF n d]
    by (simp add: response_200_cut_def example_lib_def example_Decode_APIResponse_def
          returned_def issues_json_def)
qed

text \<open>An instance of claim C9: the second of four options is a base URL with a control byte.\<close>

theorem NewClient_aborts_on_option_error_witness:
  "apply_options [WithTrace True]
     (zero_Client\<lparr>Server := TrimRight ''https://example.com/api/'' ''/'',
                  userAgent := ''go-infosight''\<rparr>)
     = Inr (zero_Client\<lparr>Server := ''https://example.com/api'',
                          userAgent := ''go-infosight'', trace := True\<rparr>)
   \<and> snd (WithBaseURL (example_lib response_200) (''http://a'' @ [CHR 0x7F])
            (zero_Client\<lparr>Server := ''https://example.com/api'',
                          userAgent := ''go-infosight'', trace := True\<rparr>))
       = Some (Err ''net/url: invalid control character in URL'')
   \<and> NewClient (example_lib response_200) ''https://example.com/api/''
       ([WithTrace True] @ WithBaseURL (example_lib response_200) (''http://a'' @ [CHR 0x7F])
          # [WithUserAgent ''agent'', WithLogin ''key'' ''secret''])
       = Inl (Err ''net/url: invalid control character in URL'')"
proof -
  have a: "apply_options [WithTrace True]
     (zero_Client\<lparr>Server := TrimRight ''https://example.com/api/'' ''/'',
                  userAgent := ''go-infosight''\<rparr>)
     = Inr (zero_Client\<lparr>Server := ''https://example.com/api'',
                          userAgent := ''go-infosight'', trace := True\<rparr>)"
    by (simp add: WithTrace_def TrimRight_def)
  have b: "snd (WithBaseURL (example_lib response_200) (''http://a'' @ [CHR 0x7F])
            (zero_Client\<lparr>Server := ''https://example.com/api'',
                          userAgent := ''go-infosight'', trace := True\<rparr>))
       = Some (Err ''net/url: invalid control character in URL'')"
    by (simp add: WithBaseURL_def example_lib_def example_url_Parse_def)
  from NewClient_aborts_on_option_error
         [where pre = "[WithTrace True]"
            and opt = "WithBaseURL (example_lib response_200) (''http://a'' @ [CHR 0x7F])"
            and lib = "example_lib response_200"
            and post = "[WithUserAgent ''agent'', WithLogin ''key'' ''secret'']", OF a b] a b
  show ?thesis by blast
qed

text \<open>
  An instance of claim C4, with the request as the network receives it from the shim.
\<close>

theorem RoundTrip_rewrites_BearerToken_witness:
  "req_Header (example_request 0) = Some 0
   \<and> 0 < fresh bearer_store
   \<and> Header_Get bearer_store (req_Header (example_request 0)) ''Authorization''
       = ''BearerToken '' @ ''abc123''
   \<and> (\<exists>st1 b.
         (\<forall>(lib :: string stdlib) t.
            RoundTrip lib (BearerAuthTransport t) bearer_store (example_request 0)
              = RoundTrip lib t st1 ((example_request 0)\<lparr>req_Header := Some b\<rparr>))
         \<and> Header_Get st1 (Some b) ''Authorization'' = ''Bearer '' @ ''abc123''
         \<and> maps st1 b = (maps bearer_store 0)(''Authorization'' \<mapsto> [''Bearer '' @ ''abc123''])
         \<and> b \<noteq> 0
         \<and> (\<forall>a'. a' \<noteq> b \<longrightarrow> maps st1 a' = maps bearer_store a'))
   \<and> map_option (\<lambda>(q, h). (q, h ''Authorization'', h ''Accept''))
        (forwarded (RoundTrip (example_lib response_200) (BearerAuthTransport DefaultTransport)
                      bearer_store (example_request 0)))
       = Some (example_request 1, Some [''Bearer abc123''], Some [''application/json''])"
proof -
  have h1: "req_Header (example_request 0) = Some 0"
    by (simp add: example_request_def)
  have h2: "0 < fresh bearer_store"
    by (simp add: bearer_store_def)
  have h3: "Header_Get bearer_store (req_Header (example_request 0)) ''Authorization''
              = ''BearerToken '' @ ''abc123''"
    by (simp add: Header_Get_def example_request_def bearer_store_def)
  have ev: "map_option (\<lambda>(q, h). (q, h ''Authorization'', h ''Accept''))
        (forwarded (RoundTrip (example_lib response_200) (BearerAuthTransport DefaultTransport)
                      bearer_store (example_request 0)))
       = Some (example_request 1, Some [''Bearer abc123''], Some [''application/json''])"
    by (subst RoundTrip_shim)
       (simp add: bearer_store_def example_request_def Header_Get_def
          HasPrefix_def example_lib_def example_Do_def forwarded_def)
  have c: "\<exists>st1 b.
         (\<forall>(lib :: string stdlib) t.
            RoundTrip lib (BearerAuthTransport t) bearer_store (example_request 0)
              = RoundTrip lib t st1 ((example_request 0)\<lparr>req_Header := Some b\<rparr>))
         \<and> Header_Get st1 (Some b) ''Authorization'' = ''Bearer '' @ ''abc123''
         \<and> maps st1 b = (maps bearer_store 0)(''Authorization'' \<mapsto> [''Bearer '' @ ''abc123''])
         \<and> b \<noteq> 0
         \<and> (\<forall>a'. a' \<noteq> b \<longrightarrow> maps st1 a' = maps bearer_store a')"
    by (rule RoundTrip_rewrites_BearerToken [OF h1 h2 h3])
  from h1 h2 h3 c ev show ?thesis by (intro conjI)
qed

text \<open>
  Claim C3 does not hold of the code. A request with no \<open>Authorization\<close> header reaches
  the underlying transport with an \<open>Authorization\<close> header whose value is the empty
  string: \<open>Header.Set\<close> is called outside the test for the prefix.
\<close>

theorem RoundTrip_adds_empty_Authorization:
  "Header_Get plain_store (req_Header (example_request 0)) ''Authorization'' = ''''
   \<and> \<not> HasPrefix '''' ''BearerToken ''
   \<and> maps plain_store 0 ''Authorization'' = None
   \<and> map_option (\<lambda>(q, h). (q, h ''Authorization'', h ''Accept''))
        (forwarded (RoundTrip (example_lib response_200) (BearerAuthTransport DefaultTransport)
                      plain_store (example_request 0)))
       = Some (example_request 1, Some [''''], Some [''application/json''])"
  by (subst RoundTrip_shim)
     (simp add: plain_store_def example_request_def Header_Get_def
        HasPrefix_def example_lib_def example_Do_def forwarded_def)

text \<open>
  Instances of claim C6: the response \<open>200 OK\<close> with a list of one issue, and with a body
  that is not JSON.
\<close>

theorem GetObjectSet_success_envelope_witness:
  "http_NewRequest (example_lib response_200) example_store ''GET''
     (Server (example_client response_200) @ ''wellness/'' @ Version \<lparr>Version = ''v1''\<rparr>
        @ ''/'' @ ''issues'' @ ''?domain=urn:nimble'') None
     = (request_store, Inr (example_request 0))
   \<and> do (example_lib response_200) (example_client response_200) request_store []
        (example_request 0)
       = Return (sent_store, [], example_request 0,
           Some (response_200\<lparr>resp_Request := Some (example_request 0)\<rparr>), None)
   \<and> 200 \<le> resp_StatusCode (response_200\<lparr>resp_Request := Some (example_request 0)\<rparr>)
   \<and> resp_StatusCode (response_200\<lparr>resp_Request := Some (example_request 0)\<rparr>) \<le> 399
   \<and> GetObjectSet (example_lib response_200) (example_client response_200)
        \<lparr>Version = ''v1''\<rparr> example_store [] ''issues''
       = Return (sent_store, [],
           Some (APIResponse_value
             \<lparr>api_Status = None, api_Request = None, Data = Some [issue_1]\<rparr>), None)
   \<and> GetObjectSet (example_lib response_200_html) (example_client response_200_html)
        \<lparr>Version = ''v1''\<rparr> example_store [] ''issues''
       = Return (sent_store, [], None, Some (Err ''invalid character''))"
proof -
  have n: "http_NewRequest (example_lib r) example_store ''GET''
     (Server (example_client r) @ ''wellness/'' @ Version \<lparr>Version = ''v1''\<rparr>
        @ ''/'' @ ''issues'' @ ''?domain=urn:nimble'') None
     = (request_store, Inr (example_request 0))" for r
    using NewRequest_example [of r] by simp
  have c1: "200 \<le> resp_StatusCode (response_200\<lparr>resp_Request := Some (example_request 0)\<rparr>)"
    and c2: "resp_StatusCode (response_200\<lparr>resp_Request := Some (example_request 0)\<rparr>) \<le> 399"
    by (simp_all add: response_200_def)
  have d1: "200 \<le> resp_StatusCode (response_200_html\<lparr>resp_Request := Some (example_request 0)\<rparr>)"
    and d2: "resp_StatusCode (response_200_html\<lparr>resp_Request := Some (example_request 0)\<rparr>) \<le> 399"
    by (simp_all add: response_200_html_def)
  have ok: "json_Decode_APIResponse (example_lib response_200)
              (resp_Body (response_200\<lparr>resp_Request := Some (example_request 0)\<rparr>))
            = Inr \<lparr>api_Status = None, api_Request = None, Data = Some [issue_1]\<rparr>"
    by (simp add: example_lib_def example_Decode_APIResponse_def response_200_def)
  have bad: "json_Decode_APIResponse (example_lib response_200_html)
              (resp_Body (response_200_html\<lparr>resp_Request := Some (example_request 0)\<rparr>))
            = Inl (Err ''invalid character'')"
    by (simp add: example_lib_def example_Decode_APIResponse_def response_200_html_def
          issues_json_def)
  have g1: "GetObjectSet (example_lib response_200) (example_client response_200)
        \<lparr>Version = ''v1''\<rparr> example_store [] ''issues''
       = Return (sent_store, [],
           Some (APIResponse_value
             \<lparr>api_Status = None, api_Request = None, Data = Some [issue_1]\<rparr>), None)"
    using GetObjectSet_success_envelope [OF n do_example c1 c2] ok by blast
  have g2: "GetObjectSet (example_lib response_200_html) (example_client response_200_html)
        \<lparr>Version = ''v1''\<rparr> example_store [] ''issues''
       = Return (sent_store, [], None, Some (Err ''invalid character''))"
    using GetObjectSet_success_envelope [OF n do_example d1 d2] bad by blast
  from n [of response_200] do_example [of response_200] c1 c2 g1 g2
  show ?thesis by (intro conjI)
qed

text \<open>
  Claim C7 as stated fails: for a name with a control byte the URL does not parse, and
  \<open>GetObjectSet\<close> returns the parser's error. The store is untouched and the transport,
  which answers every request with \<open>200 OK\<close> and no error, was not asked.
\<close>

theorem GetObjectSet_name_with_control_byte:
  "GetObjectSet (example_lib response_200) (example_client response_200)
     \<lparr>Version = ''v1''\<rparr> example_store [] (''issues'' @ [CHR 0x7F])
     = Return (example_store, [], None,
         Some (Err ''net/url: invalid control character in URL''))"
  by (rule GetObjectSet_bad_URL) (simp add: example_lib_def example_url_Parse_def)

text \<open>
  Instances of claim C7 as amended: the request for the issues of
  \<open>https://example.com/api/\<close>, and a name that the URL parser rejects.
\<close>

theorem GetObjectSet_request_URL_witness:
  "ctx (example_client response_200)
     = Some (WithValue_HTTPClient Background \<lparr>Transport = BearerAuthTransport DefaultTransport\<rparr>)
   \<and> url_Parse (example_lib response_200)
        (Server (example_client response_200) @ ''wellness/'' @ Version \<lparr>Version = ''v1''\<rparr>
           @ ''/'' @ ''issues'' @ ''?domain=urn:nimble'')
       = Inr (URL ''https://example.com/api/wellness/v1/issues?domain=urn:nimble'')
   \<and> (\<exists>st1 req. req_Method req = ''GET''
          \<and> req_URL req = removeEmptyPort (example_lib response_200)
                (URL ''https://example.com/api/wellness/v1/issues?domain=urn:nimble'')
          \<and> req_Body req = None
          \<and> (\<forall>doer. \<exists>lg2.
                GetObjectSet (example_lib response_200)
                  ((example_client response_200)\<lparr>innerClient := Some doer\<rparr>)
                  \<lparr>Version = ''v1''\<rparr> example_store [] ''issues''
                  = (case doer st1 req of
                       (st2, r, e) \<Rightarrow>
                         (case e of
                            Some err \<Rightarrow> Return (st2, lg2, None, Some err)
                          | None \<Rightarrow>
                              (case (if trace (example_client response_200)
                                     then map_option
                                            (\<lambda>r0. fst (DumpResponse (example_lib response_200) r0 True)) r
                                     else r) of
                                 None \<Rightarrow> Panic
                               | Some r1 \<Rightarrow>
                                   if resp_StatusCode r1 > 399
                                   then (case NewFaultResponse (example_lib response_200) r1 of
                                           (p, e1) \<Rightarrow>
                                             Return (st2, lg2, Some (FaultResponse_ptr p), e1))
                                   else (case json_Decode_APIResponse (example_lib response_200)
                                                (resp_Body r1) of
                                           Inl e1 \<Rightarrow> Return (st2, lg2, None, Some e1)
                                         | Inr a \<Rightarrow>
                                             Return (st2, lg2, Some (APIResponse_value a),
                                                     None)))))))
   \<and> url_Parse (example_lib response_200)
        (Server (example_client response_200) @ ''wellness/'' @ Version \<lparr>Version = ''v1''\<rparr>
           @ ''/'' @ (''issues'' @ [CHR 0x7F]) @ ''?domain=urn:nimble'')
       = Inl (Err ''net/url: invalid control character in URL'')
   \<and> (\<forall>doer. GetObjectSet (example_lib response_200)
                 ((example_client response_200)\<lparr>innerClient := Some doer\<rparr>)
                 \<lparr>Version = ''v1''\<rparr> example_store [] (''issues'' @ [CHR 0x7F])
               = Return (example_store, [], None,
                   Some (Err ''net/url: invalid control character in URL'')))
   \<and> GetIssues (example_lib response_200) (example_client response_200)
        \<lparr>Version = ''v1''\<rparr> example_store []
       = GetObjectSet (example_lib response_200) (example_client response_200)
           \<lparr>Version = ''v1''\<rparr> example_store [] ''issues''"
proof -
  have h1: "ctx (example_client response_200)
     = Some (WithValue_HTTPClient Background \<lparr>Transport = BearerAuthTransport DefaultTransport\<rparr>)"
    by (simp add: example_client_def)
  have h2: "url_Parse (example_lib response_200)
        (Server (example_client response_200) @ ''wellness/'' @ Version \<lparr>Version = ''v1''\<rparr>
           @ ''/'' @ ''issues'' @ ''?domain=urn:nimble'')
       = Inr (URL ''https://example.com/api/wellness/v1/issues?domain=urn:nimble'')"
    by (simp add: example_client_def example_lib_def example_url_Parse_def)
  have h3: "url_Parse (example_lib response_200)
        (Server (example_client response_200) @ ''wellness/'' @ Version \<lparr>Version = ''v1''\<rparr>
           @ ''/'' @ (''issues'' @ [CHR 0x7F]) @ ''?domain=urn:nimble'')
       = Inl (Err ''net/url: invalid control character in URL'')"
    by (simp add: example_client_def example_lib_def example_url_Parse_def)
  note t = GetObjectSet_request_URL
             [OF h1, where lib = "example_lib response_200" and w = "\<lparr>Version = ''v1''\<rparr>"
                and st = example_store and lg = "[]" and objectSet = "''issues''"]
  note b = GetObjectSet_request_URL
             [OF h1, where lib = "example_lib response_200" and w = "\<lparr>Version = ''v1''\<rparr>"
                and st = example_store and lg = "[]" and objectSet = "''issues'' @ [CHR 0x7F]"]
  note t1 = t [THEN conjunct1, rule_format, OF h2]
  note t3 = t [THEN conjunct2, THEN conjunct2]
  have b2: "\<forall>doer. GetObjectSet (example_lib response_200)
                 ((example_client response_200)\<lparr>innerClient := Some doer\<rparr>)
                 \<lparr>Version = ''v1''\<rparr> example_store [] (''issues'' @ [CHR 0x7F])
               = Return (example_store, [], None,
                   Some (Err ''net/url: invalid control character in URL''))"
    using b [THEN conjunct2, THEN conjunct1] h3 by blast
  show ?thesis
    by (intro conjI, rule h1, rule h2, rule t1, rule h3, rule b2, rule t3)
qed

text \<open>An instance of claim C10, with each of the four other options.\<close>

theorem default_User_Agent_witness:
  "req_Header (example_request 0) = Some 0
   \<and> (\<exists>c. NewClient (example_lib response_200) ''https://example.com/api''
             [WithTrace True, WithLogin ''key'' ''secret'', WithContext (Some (CallerContext 7)),
              WithBaseURL (example_lib response_200) ''https://example.org/''] = Inr c
         \<and> userAgent c = ''go-infosight''
         \<and> (\<exists>st1. Header_Get st1 (req_Header (example_request 0)) ''User-Agent'' = ''go-infosight''
               \<and> (\<forall>doer. \<exists>lg1.
                     do (example_lib response_200) (c\<lparr>innerClient := Some doer\<rparr>)
                        request_store [] (example_request 0)
                       = (case doer st1 (example_request 0) of
                            (st2, r, e) \<Rightarrow>
                              Return (st2, lg1,
                                if trace c
                                then fst (DumpRequestOut (example_lib response_200) st2
                                            (example_request 0) True)
                                else example_request 0,
                                if trace c
                                then map_option
                                       (\<lambda>r0. fst (DumpResponse (example_lib response_200) r0 True)) r
                                else r,
                                e)))))"
proof -
  let ?lib = "example_lib response_200"
  let ?opts = "[WithTrace True, WithLogin ''key'' ''secret'', WithContext (Some (CallerContext 7)),
              WithBaseURL ?lib ''https://example.org/'']"
  have h3: "req_Header (example_request 0) = Some 0"
    by (simp add: example_request_def)
  have "\<exists>c. NewClient ?lib ''https://example.com/api'' ?opts = Inr c"
    by (simp add: NewClient_def Let_def WithTrace_def WithLogin_def WithContext_def
          WithBaseURL_def example_lib_def example_url_Parse_def)
  then obtain c where c: "NewClient ?lib ''https://example.com/api'' ?opts = Inr c" ..
  have h2: "\<forall>opt\<in>set ?opts. (\<exists>t. opt = WithTrace t) \<or> (\<exists>x. opt = WithContext x)
             \<or> (\<exists>u p. opt = WithLogin u p) \<or> (\<exists>b. opt = WithBaseURL ?lib b)"
    by (simp, blast)
  note t = default_User_Agent [OF c h2 h3, where st = request_store and lg = "[]"]
  show ?thesis
    by (intro conjI, rule h3, rule exI [of _ c], intro conjI, rule c,
        rule t [THEN conjunct1], rule t [THEN conjunct2])
qed

end
